theory Spec2Isabelle
  imports Main "HOL-Library.DAList" "HOL-Library.Multiset"
begin

section \<open>Package health: data model\<close>

text \<open>
  \<^verbatim>\<open>type Status string\<close> with its three constants. A checker written by the embedding
  service may return any string, so the type is kept as wide as the source has it.
\<close>

type_synonym Status = string

definition StatusHealthy :: Status where
  "StatusHealthy = ''healthy''"

definition StatusUnhealthy :: Status where
  "StatusUnhealthy = ''unhealthy''"

definition StatusUnknown :: Status where
  "StatusUnknown = ''unknown''"

text \<open>\<^verbatim>\<open>time.Time\<close> and \<^verbatim>\<open>time.Duration\<close> are counted in nanoseconds.\<close>

type_synonym Time = int
type_synonym Duration = int

definition Second :: Duration where
  "Second = 1000000000"

text \<open>
  \<^verbatim>\<open>CheckResult\<close>. A field that a composite literal leaves out has Go's zero value:
  the empty string for \<open>Name\<close> and \<open>Message\<close>, the nil map (no entries) for \<open>Metadata\<close>.
\<close>

record CheckResult =
  Name :: string
  Status :: Status
  Message :: string
  Duration :: Duration
  Metadata :: "string \<rightharpoonup> string"
  Timestamp :: Time

text \<open>\<^verbatim>\<open>HealthResponse\<close>; \<open>Status\<close> and \<open>Timestamp\<close> carry a suffix, the rest keep their names.\<close>

record HealthResponse =
  Status_resp :: Status
  Timestamp_resp :: Time
  Service :: string
  Version :: string
  Uptime :: Duration
  Checks :: "CheckResult list"

text \<open>
  \<^verbatim>\<open>context.Context\<close>, reduced to what this code creates: an optional deadline.
  \<^verbatim>\<open>context.WithTimeout(parent, d)\<close> called at time \<open>now\<close> never extends the parent's deadline.
\<close>

record Context =
  deadline :: "Time option"

definition Background :: Context where
  "Background = \<lparr>deadline = None\<rparr>"

definition WithTimeout :: "Context \<Rightarrow> Time \<Rightarrow> Duration \<Rightarrow> Context" where
  "WithTimeout parent now d =
     (case deadline parent of
        None \<Rightarrow> \<lparr>deadline = Some (now + d)\<rparr>
      | Some p \<Rightarrow> \<lparr>deadline = Some (min p (now + d))\<rparr>)"

text \<open>
  The \<^verbatim>\<open>Checker\<close> interface: one method \<^verbatim>\<open>Check(ctx) CheckResult\<close>. The call reads the
  outside world (network, clock); \<open>'e\<close> is what one call observes of it, so an
  implementation is a function of the context and of that observation. A call is taken
  to return: a checker that never returns stalls the pass and is outside this model.
\<close>

type_synonym 'e Checker = "Context \<Rightarrow> 'e \<Rightarrow> CheckResult"

text \<open>
  \<^verbatim>\<open>Manager\<close>. The Go map \<^verbatim>\<open>map[string]Checker\<close> holds one checker per name: an
  association list with distinct keys. The mutex and the logger do not influence any
  returned value and are left out, here and in the checkers.
\<close>

record 'e Manager =
  serviceName :: string
  version :: string
  startTime :: Time
  checkers :: "(string, 'e Checker) alist"

definition NewManager :: "string \<Rightarrow> string \<Rightarrow> Time \<Rightarrow> 'e Manager" where
  "NewManager name ver now =
     \<lparr>serviceName = name, version = ver, startTime = now, checkers = DAList.empty\<rparr>"

definition AddChecker :: "string \<Rightarrow> 'e Checker \<Rightarrow> 'e Manager \<Rightarrow> 'e Manager" where
  "AddChecker name checker m = m\<lparr>checkers := DAList.update name checker (checkers m)\<rparr>"

definition RemoveChecker :: "string \<Rightarrow> 'e Manager \<Rightarrow> 'e Manager" where
  "RemoveChecker name m = m\<lparr>checkers := DAList.delete name (checkers m)\<rparr>"

section \<open>CheckHealth\<close>

text \<open>
  Everything one pass of \<^verbatim>\<open>CheckHealth\<close> takes from outside the manager:
  what the goroutine started for each name observes during its \<^verbatim>\<open>Check\<close> call, the
  scheduler's choices (which of the goroutines still running sends its result next), and
  the two clock readings of the returned literal.
\<close>

record 'e Pass =
  observed :: "string \<Rightarrow> 'e"
  schedule :: "nat list"
  now_stamp :: Time
  now_uptime :: Time

text \<open>
  The body of the goroutine (lines 106--111): run the check, overwrite \<open>Name\<close> with the
  map key, send the result.
\<close>

definition goroutine :: "Context \<Rightarrow> (string \<Rightarrow> 'e) \<Rightarrow> string \<times> 'e Checker \<Rightarrow> CheckResult" where
  "goroutine ctx obs p = (case p of (n, c) \<Rightarrow> (c ctx (obs n))\<lparr>Name := n\<rparr>)"

text \<open>
  Which of \<open>n\<close> running goroutines sends next: the scheduler's number, reduced to the
  range. Every choice is a legal one, and an exhausted schedule picks the first.
\<close>

definition next_sender :: "nat list \<Rightarrow> nat \<Rightarrow> nat" where
  "next_sender sched n = (case sched of [] \<Rightarrow> 0 | k # _ \<Rightarrow> k mod n)"

text \<open>
  The fan-out and the collecting loop (lines 99--123). One goroutine per entry of the
  snapshot; the channel has room for all of them, so each sends exactly once and the
  collecting loop appends the results in the order of the sends, until the channel is
  closed after the last one.
\<close>

function resultCh :: "Context \<Rightarrow> (string \<Rightarrow> 'e) \<Rightarrow> nat list \<Rightarrow> (string \<times> 'e Checker) list \<Rightarrow> CheckResult list" where
  "resultCh ctx obs sched running =
     (if running = [] then []
      else let i = next_sender sched (length running)
           in goroutine ctx obs (running ! i)
              # resultCh ctx obs (tl sched) (take i running @ drop (Suc i) running))"
  by pat_completeness auto
termination
proof (relation "measure (\<lambda>(ctx, obs, sched, running). length running)")
  show "wf (measure (\<lambda>(ctx, obs, sched, running). length running))"
    by simp
next
  fix ctx :: Context and obs :: "string \<Rightarrow> 'e" and sched :: "nat list"
    and running :: "(string \<times> 'e Checker) list" and i :: nat
  assume ne: "running \<noteq> []" and i: "i = next_sender sched (length running)"
  from ne have "i < length running"
    unfolding i by (simp add: next_sender_def split: list.splits)
  then show "((ctx, obs, tl sched, take i running @ drop (Suc i) running), (ctx, obs, sched, running))
      \<in> measure (\<lambda>(ctx, obs, sched, running). length running)"
    by simp
qed

declare resultCh.simps [simp del]

text \<open>
  The loop of lines 126--132: the first unhealthy check decides and ends the loop.
\<close>

fun overallStatus :: "CheckResult list \<Rightarrow> Status" where
  "overallStatus [] = StatusHealthy"
| "overallStatus (check # rest) =
     (if Status check = StatusUnhealthy then StatusUnhealthy else overallStatus rest)"

definition CheckHealth :: "'e Manager \<Rightarrow> Context \<Rightarrow> 'e Pass \<Rightarrow> HealthResponse" where
  "CheckHealth m ctx pass =
     (let snapshot = DAList.impl_of (checkers m);
          checks = resultCh ctx (observed pass) (schedule pass) snapshot
      in \<lparr>Status_resp = overallStatus checks,
          Timestamp_resp = now_stamp pass,
          Service = serviceName m,
          Version = version m,
          Uptime = now_uptime pass - startTime m,
          Checks = checks\<rparr>)"

section \<open>Checker variants\<close>

text \<open>
  A Go \<^verbatim>\<open>error\<close> is represented by its text, which is what \<^verbatim>\<open>%v\<close> prints;
  \<^verbatim>\<open>nil\<close> is \<open>None\<close> of \<open>error option\<close>.
\<close>

type_synonym error = string

text \<open>\<^verbatim>\<open>fmt.Sprintf("%d", n)\<close>: the decimal digits, with a minus sign below zero.\<close>

definition digit :: "nat \<Rightarrow> char" where
  "digit d = ''0123456789'' ! d"

function decimal :: "nat \<Rightarrow> string" where
  "decimal n = (if n < 10 then [digit n] else decimal (n div 10) @ [digit (n mod 10)])"
  by pat_completeness auto
termination
  by (relation "measure id") auto

declare decimal.simps [simp del]

definition Sprintf_d :: "int \<Rightarrow> string" where
  "Sprintf_d n = (if n < 0 then CHR ''-'' # decimal (nat (- n)) else decimal (nat n))"

text \<open>
  The three clock readings every \<^verbatim>\<open>Check\<close> takes: \<^verbatim>\<open>start := time.Now()\<close>, the reading of
  \<^verbatim>\<open>time.Since(start)\<close> and the \<^verbatim>\<open>time.Now()\<close> of the returned literal.
\<close>

record Readings =
  t_start :: Time
  t_since :: Time
  t_now :: Time

text \<open>
  \<^verbatim>\<open>DatabaseChecker.Check\<close>. Observed: the result of \<^verbatim>\<open>db.PingContext(ctx)\<close> and the
  pool statistics of \<^verbatim>\<open>db.Stats()\<close>.
\<close>

record DBStats =
  OpenConnections :: int
  InUse :: int
  Idle :: int

record DatabaseObs = Readings +
  PingContext :: "error option"
  Stats :: DBStats

definition DatabaseChecker_Check :: "Context \<Rightarrow> DatabaseObs \<Rightarrow> CheckResult" where
  "DatabaseChecker_Check ctx e =
     (let duration = t_since e - t_start e
      in case PingContext e of
           Some err \<Rightarrow>
             \<lparr>Name = [], Status = StatusUnhealthy,
              Message = ''Database ping failed: '' @ err,
              Duration = duration, Metadata = Map.empty, Timestamp = t_now e\<rparr>
         | None \<Rightarrow>
             (let stats = Stats e;
                  metadata = [''open_connections'' \<mapsto> Sprintf_d (OpenConnections stats),
                              ''in_use'' \<mapsto> Sprintf_d (InUse stats),
                              ''idle'' \<mapsto> Sprintf_d (Idle stats)]
              in \<lparr>Name = [], Status = StatusHealthy,
                  Message = ''Database connection healthy'',
                  Duration = duration, Metadata = metadata, Timestamp = t_now e\<rparr>))"

text \<open>
  \<^verbatim>\<open>RedisChecker.Check\<close>. Observed: the reply and error of \<^verbatim>\<open>Ping(ctx).Result()\<close>, and the
  error of \<^verbatim>\<open>Info(ctx).Result()\<close>.
\<close>

record RedisObs = Readings +
  Ping_Result :: "string \<times> error option"
  Info_Result :: "error option"

definition RedisChecker_Check :: "Context \<Rightarrow> RedisObs \<Rightarrow> CheckResult" where
  "RedisChecker_Check ctx e =
     (let duration = t_since e - t_start e
      in case Ping_Result e of
           (pong, Some err) \<Rightarrow>
             \<lparr>Name = [], Status = StatusUnhealthy,
              Message = ''Redis ping failed: '' @ err,
              Duration = duration, Metadata = Map.empty, Timestamp = t_now e\<rparr>
         | (pong, None) \<Rightarrow>
             if pong \<noteq> ''PONG'' then
               \<lparr>Name = [], Status = StatusUnhealthy,
                Message = ''Redis ping returned unexpected response: '' @ pong,
                Duration = duration, Metadata = Map.empty, Timestamp = t_now e\<rparr>
             else
               (let metadata = [''ping_response'' \<mapsto> pong];
                    metadata = (if Info_Result e = None then metadata(''info_available'' \<mapsto> ''true'')
                                else metadata)
                in \<lparr>Name = [], Status = StatusHealthy,
                    Message = ''Redis connection healthy'',
                    Duration = duration, Metadata = metadata, Timestamp = t_now e\<rparr>))"

text \<open>
  \<^verbatim>\<open>MoshiChecker.Check\<close>. Observed: how the probe of a URL ends. Either
  \<^verbatim>\<open>http.NewRequestWithContext\<close> rejects the request, or \<^verbatim>\<open>client.Do\<close> fails (connection
  refused, timeout, malformed response), or a response arrives with its status code and
  header. \<^verbatim>\<open>Header.Get\<close> of an absent key is the empty string. The client's timeout
  shows only in how the probe ends.
\<close>

record Response =
  StatusCode :: int
  Header :: "string \<rightharpoonup> string"

definition Header_Get :: "(string \<rightharpoonup> string) \<Rightarrow> string \<Rightarrow> string" where
  "Header_Get h k = (case h k of None \<Rightarrow> [] | Some v \<Rightarrow> v)"

datatype Probe = NewRequestFailed error | DoFailed error | Responded Response

record MoshiObs = Readings +
  Get :: "string \<Rightarrow> Probe"

record MoshiChecker =
  serviceURL :: string
  timeout_c :: Duration

definition NewMoshiChecker :: "string \<Rightarrow> Duration \<Rightarrow> MoshiChecker" where
  "NewMoshiChecker url d = \<lparr>serviceURL = url, timeout_c = d\<rparr>"

definition MoshiChecker_Check :: "MoshiChecker \<Rightarrow> Context \<Rightarrow> MoshiObs \<Rightarrow> CheckResult" where
  "MoshiChecker_Check c ctx e =
     (let healthURL = ''http://'' @ serviceURL c @ ''/health'';
          duration = t_since e - t_start e
      in case Get e healthURL of
           NewRequestFailed err \<Rightarrow>
             \<lparr>Name = [], Status = StatusUnhealthy,
              Message = ''Failed to create request: '' @ err,
              Duration = duration, Metadata = Map.empty, Timestamp = t_now e\<rparr>
         | DoFailed err \<Rightarrow>
             \<lparr>Name = [], Status = StatusUnhealthy,
              Message = ''Moshi service unreachable: '' @ err,
              Duration = duration, Metadata = Map.empty, Timestamp = t_now e\<rparr>
         | Responded resp \<Rightarrow>
             (let metadata = [''service_url'' \<mapsto> serviceURL c,
                              ''status_code'' \<mapsto> Sprintf_d (StatusCode resp),
                              ''content_type'' \<mapsto> Header_Get (Header resp) ''Content-Type'']
              in if 200 \<le> StatusCode resp \<and> StatusCode resp < 300 then
                   \<lparr>Name = [], Status = StatusHealthy,
                    Message = ''Moshi service responding'',
                    Duration = duration, Metadata = metadata, Timestamp = t_now e\<rparr>
                 else
                   \<lparr>Name = [], Status = StatusUnhealthy,
                    Message = ''Moshi service returned status '' @ Sprintf_d (StatusCode resp),
                    Duration = duration, Metadata = metadata, Timestamp = t_now e\<rparr>))"

text \<open>
  \<^verbatim>\<open>CustomChecker\<close>. Its own \<open>name\<close> field is stored by the constructor and read nowhere.
  \<open>checkFunc\<close> is the closure of the embedding service; \<open>'x\<close> is the outside state it
  reads when called.
\<close>

record 'x CustomChecker =
  name :: string
  checkFunc :: "Context \<Rightarrow> 'x \<Rightarrow> bool \<times> string \<times> (string \<rightharpoonup> string)"

record 'x CustomObs = Readings +
  outside :: 'x

definition NewCustomChecker ::
  "string \<Rightarrow> (Context \<Rightarrow> 'x \<Rightarrow> bool \<times> string \<times> (string \<rightharpoonup> string)) \<Rightarrow> 'x CustomChecker" where
  "NewCustomChecker n f = \<lparr>name = n, checkFunc = f\<rparr>"

definition CustomChecker_Check :: "'x CustomChecker \<Rightarrow> Context \<Rightarrow> 'x CustomObs \<Rightarrow> CheckResult" where
  "CustomChecker_Check c ctx e =
     (case checkFunc c ctx (outside e) of
        (healthy, message, metadata) \<Rightarrow>
          (let duration = t_since e - t_start e;
               status = (if \<not> healthy then StatusUnhealthy else StatusHealthy)
           in \<lparr>Name = [], Status = status, Message = message,
               Duration = duration, Metadata = metadata, Timestamp = t_now e\<rparr>))"

section \<open>HTTP handlers\<close>

text \<open>
  \<^verbatim>\<open>http.ResponseWriter\<close> as net/http documents it. \<open>header\<close> is the map the handler
  edits. \<^verbatim>\<open>WriteHeader\<close> sends the status line and the header as it stands; only the
  first call counts, a later one is reported as superfluous and changes nothing.
  \<^verbatim>\<open>Write\<close> before any \<^verbatim>\<open>WriteHeader\<close> sends status 200 first. \<open>code\<close> and \<open>sent\<close> are what
  the client receives; \<open>None\<close> while nothing has been sent.
\<close>

record ResponseWriter =
  header :: "string \<rightharpoonup> string"
  code :: "int option"
  sent :: "string \<rightharpoonup> string"
  body :: string

definition NewResponseWriter :: ResponseWriter where
  "NewResponseWriter = \<lparr>header = Map.empty, code = None, sent = Map.empty, body = []\<rparr>"

definition Header_Set :: "ResponseWriter \<Rightarrow> string \<Rightarrow> string \<Rightarrow> ResponseWriter" where
  "Header_Set w k v = w\<lparr>header := (header w)(k \<mapsto> v)\<rparr>"

definition Header_Del :: "ResponseWriter \<Rightarrow> string \<Rightarrow> ResponseWriter" where
  "Header_Del w k = w\<lparr>header := (header w)(k := None)\<rparr>"

definition WriteHeader :: "ResponseWriter \<Rightarrow> int \<Rightarrow> ResponseWriter" where
  "WriteHeader w c =
     (case code w of
        None \<Rightarrow> w\<lparr>code := Some c, sent := header w\<rparr>
      | Some _ \<Rightarrow> w)"

definition Write :: "ResponseWriter \<Rightarrow> string \<Rightarrow> ResponseWriter" where
  "Write w bytes = (let w' = WriteHeader w 200 in w'\<lparr>body := body w' @ bytes\<rparr>)"

definition StatusOK :: int where
  "StatusOK = 200"

definition StatusInternalServerError :: int where
  "StatusInternalServerError = 500"

definition StatusServiceUnavailable :: int where
  "StatusServiceUnavailable = 503"

text \<open>
  \<^verbatim>\<open>http.Error(w, error, code)\<close>: drops the content length, sets a plain-text content
  type, calls \<^verbatim>\<open>WriteHeader(code)\<close> and prints the text and a newline.
\<close>

definition http_Error :: "ResponseWriter \<Rightarrow> string \<Rightarrow> int \<Rightarrow> ResponseWriter" where
  "http_Error w msg c =
     (let w1 = Header_Del w ''Content-Length'';
          w2 = Header_Set w1 ''Content-Type'' ''text/plain; charset=utf-8'';
          w3 = Header_Set w2 ''X-Content-Type-Options'' ''nosniff'';
          w4 = WriteHeader w3 c
      in Write w4 (msg @ [CHR 0x0A]))"

text \<open>
  \<^verbatim>\<open>json.NewEncoder(w).Encode(v)\<close>. The marshaller of encoding/json is a parameter: it
  yields the text or an error. \<^verbatim>\<open>Encode\<close> marshals the whole value first; on an error
  nothing is written, otherwise the text and a newline are.
\<close>

type_synonym Marshal = "HealthResponse \<Rightarrow> error + string"

definition Encode :: "Marshal \<Rightarrow> ResponseWriter \<Rightarrow> HealthResponse \<Rightarrow> ResponseWriter \<times> error option" where
  "Encode marshal w v =
     (case marshal v of
        Inl err \<Rightarrow> (w, Some err)
      | Inr text \<Rightarrow> (Write w (text @ [CHR 0x0A]), None))"

text \<open>The request, reduced to the part the handlers read: \<^verbatim>\<open>r.Context()\<close>.\<close>

record Request =
  Request_Context :: Context

text \<open>
  The three handlers. \<open>now\<close> is the clock reading of \<^verbatim>\<open>context.WithTimeout\<close>; \<open>pass\<close> is
  what the pass of \<^verbatim>\<open>CheckHealth\<close> takes from outside.
\<close>

definition HTTPHandler ::
  "'e Manager \<Rightarrow> Marshal \<Rightarrow> Time \<Rightarrow> 'e Pass \<Rightarrow> ResponseWriter \<Rightarrow> Request \<Rightarrow> ResponseWriter" where
  "HTTPHandler m marshal now pass w r =
     (let ctx = WithTimeout (Request_Context r) now (30 * Second);
          health = CheckHealth m ctx pass;
          w1 = Header_Set w ''Content-Type'' ''application/json'';
          w2 = (if Status_resp health = StatusHealthy then WriteHeader w1 StatusOK
                else WriteHeader w1 StatusServiceUnavailable)
      in case Encode marshal w2 health of
           (w3, Some err) \<Rightarrow> http_Error w3 ''Internal Server Error'' StatusInternalServerError
         | (w3, None) \<Rightarrow> w3)"

definition ReadinessHandler ::
  "'e Manager \<Rightarrow> Time \<Rightarrow> 'e Pass \<Rightarrow> ResponseWriter \<Rightarrow> Request \<Rightarrow> ResponseWriter" where
  "ReadinessHandler m now pass w r =
     (let ctx = WithTimeout (Request_Context r) now (10 * Second);
          health = CheckHealth m ctx pass
      in if Status_resp health = StatusHealthy then
           Write (WriteHeader w StatusOK) ''ready''
         else
           Write (WriteHeader w StatusServiceUnavailable) ''not ready'')"

definition LivenessHandler :: "'e Manager \<Rightarrow> ResponseWriter \<Rightarrow> Request \<Rightarrow> ResponseWriter" where
  "LivenessHandler m w r = Write (WriteHeader w StatusOK) ''alive''"

section \<open>Package shutdown\<close>

text \<open>
  The logger, as far as this package uses it: entries with a message and zap fields,
  appended in the order of the calls.
\<close>

datatype Field =
  zap_String string string
| zap_Int string int
| zap_Duration string Duration
| zap_Error error

datatype LogEntry = Info string "Field list" | Error string "Field list"

text \<open>
  The state outside the manager that hooks act on. It has a clock, which a hook
  advances by the time it takes; the rest is the embedding service's.
\<close>

record World =
  clock :: Time

text \<open>
  \<^verbatim>\<open>type Hook func(ctx context.Context) error\<close>: a closure with effects on the world. A
  hook is taken to return, with an error or with \<^verbatim>\<open>nil\<close>.
\<close>

type_synonym 'a Hook = "Context \<Rightarrow> 'a World_scheme \<Rightarrow> error option \<times> 'a World_scheme"

text \<open>\<^verbatim>\<open>shutdown.Manager\<close>: the hooks and the timeout. It has no other state.\<close>

record 'a ShutdownManager =
  hooks :: "'a Hook list"
  timeout :: Duration

definition NewShutdownManager :: "Duration \<Rightarrow> 'a ShutdownManager" where
  "NewShutdownManager d = \<lparr>hooks = [], timeout = d\<rparr>"

definition AddHook :: "'a Hook \<Rightarrow> 'a ShutdownManager \<Rightarrow> 'a ShutdownManager" where
  "AddHook hook m = m\<lparr>hooks := hooks m @ [hook]\<rparr>"

text \<open>
  What a run of \<^verbatim>\<open>Shutdown\<close> leaves behind: the world, the log entries, and the trace of
  the calls \<^verbatim>\<open>hook(ctx)\<close> of line 70, each with the index of the hook and the clock
  reading at the call.
\<close>

record 'a Run =
  world :: "'a World_scheme"
  logged :: "LogEntry list"
  started :: "(int \<times> Time) list"

text \<open>
  The loop \<^verbatim>\<open>for i := len(hooks) - 1; i >= 0; i--\<close>. It is entered with
  \<open>i = len(hooks) - 1\<close>, so \<open>hooks[i]\<close> is always in range.
\<close>

function Shutdown_loop :: "'a Hook list \<Rightarrow> Context \<Rightarrow> int \<Rightarrow> 'a Run \<Rightarrow> 'a Run" where
  "Shutdown_loop hs ctx i run =
     (if i \<ge> 0 then
        (let hook = hs ! nat i
         in case hook ctx (world run) of
              (err, w') \<Rightarrow>
                Shutdown_loop hs ctx (i - 1)
                  \<lparr>world = w',
                   logged = logged run @
                     (case err of
                        Some e \<Rightarrow> [Error ''Shutdown hook failed'' [zap_Error e, zap_Int ''hook_index'' i]]
                      | None \<Rightarrow> []),
                   started = started run @ [(i, clock (world run))]\<rparr>)
      else run)"
  by pat_completeness auto
termination
  by (relation "measure (\<lambda>(hs, ctx, i, run). nat (i + 1))") auto

declare Shutdown_loop.simps [simp del]

definition Shutdown :: "'a ShutdownManager \<Rightarrow> 'a World_scheme \<Rightarrow> 'a Run" where
  "Shutdown m w =
     (let ctx = WithTimeout Background (clock w) (timeout m);
          run0 = \<lparr>world = w,
                  logged = [Info ''Starting graceful shutdown'' [zap_Duration ''timeout'' (timeout m)]],
                  started = []\<rparr>;
          hs = hooks m;
          run1 = Shutdown_loop hs ctx (int (length hs) - 1) run0
      in run1\<lparr>logged := logged run1 @ [Info ''Graceful shutdown completed'' []]\<rparr>)"

text \<open>
  \<^verbatim>\<open>Listen\<close> blocks until a signal arrives, logs it and calls \<^verbatim>\<open>Shutdown\<close>;
  \<^verbatim>\<open>WaitForShutdown\<close> does the same and then ends the process with \<^verbatim>\<open>os.Exit(0)\<close>,
  the exit code being the second component.
\<close>

definition Listen :: "'a ShutdownManager \<Rightarrow> string \<Rightarrow> 'a World_scheme \<Rightarrow> 'a Run" where
  "Listen m sig w =
     (let run = Shutdown m w
      in run\<lparr>logged := Info ''Received shutdown signal'' [zap_String ''signal'' sig] # logged run\<rparr>)"

definition WaitForShutdown :: "'a ShutdownManager \<Rightarrow> string \<Rightarrow> 'a World_scheme \<Rightarrow> 'a Run \<times> int" where
  "WaitForShutdown m sig w =
     (let run = Shutdown m w
      in (run\<lparr>logged := Info ''Received shutdown signal'' [zap_String ''signal'' sig] # logged run\<rparr>, 0))"

section \<open>Example inputs\<close>

text \<open>
  The two Moshi checkers of the health test utility, with the speech-to-text server
  answering 200 and the text-to-speech server refusing the connection; the second
  goroutine finishes first.
\<close>

definition example_manager :: "MoshiObs Manager" where
  "example_manager =
     AddChecker ''moshi_tts'' (MoshiChecker_Check (NewMoshiChecker ''localhost:8089'' (5 * Second)))
       (AddChecker ''moshi_stt'' (MoshiChecker_Check (NewMoshiChecker ''localhost:8088'' (5 * Second)))
          (NewManager ''phonic'' ''0.1.0-dev'' 0))"

definition example_probe :: "string \<Rightarrow> Probe" where
  "example_probe url =
     (if url = ''http://localhost:8088/health''
      then Responded \<lparr>StatusCode = 200, Header = [''Content-Type'' \<mapsto> ''text/plain'']\<rparr>
      else DoFailed ''connection refused'')"

definition example_pass :: "MoshiObs Pass" where
  "example_pass =
     \<lparr>observed = (\<lambda>n. \<lparr>t_start = 0, t_since = 1, t_now = 2, Get = example_probe\<rparr>),
      schedule = [1], now_stamp = 3, now_uptime = 4\<rparr>"

text \<open>
  The custom checker of the health test utility: constructed with the name
  \<open>system_resources\<close>, registered under the key \<open>custom_check\<close>.
\<close>

definition custom_manager :: "unit CustomObs Manager" where
  "custom_manager =
     AddChecker ''custom_check''
       (CustomChecker_Check
          (NewCustomChecker ''system_resources''
             (\<lambda>ctx x. (True, ''System resources OK'', [''check_type'' \<mapsto> ''system_resources'']))))
       (NewManager ''phonic'' ''0.1.0-dev'' 0)"

definition custom_pass :: "unit CustomObs Pass" where
  "custom_pass =
     \<lparr>observed = (\<lambda>n. \<lparr>t_start = 0, t_since = 1, t_now = 2, outside = ()\<rparr>),
      schedule = [], now_stamp = 3, now_uptime = 4\<rparr>"

text \<open>One checker instance registered under two names.\<close>

definition twice_manager :: "MoshiObs Manager" where
  "twice_manager =
     (let c = MoshiChecker_Check (NewMoshiChecker ''localhost:8088'' (5 * Second))
      in AddChecker ''moshi_second'' c (AddChecker ''moshi_first'' c (NewManager ''phonic'' ''0.1.0-dev'' 0)))"

text \<open>A probe that finds the connection refused.\<close>

definition refused :: MoshiObs where
  "refused = \<lparr>t_start = 0, t_since = 5, t_now = 6, Get = (\<lambda>url. DoFailed ''connection refused'')\<rparr>"

text \<open>
  A checker of the embedding service whose result carries a time stamp of the year
  10000. \<^verbatim>\<open>time.Time.MarshalJSON\<close> refuses such a time, so marshalling a report that holds
  it fails; \<open>refusing\<close> is the marshaller's answer to that report.
\<close>

definition year_10000 :: Time where
  "year_10000 = 253402300800 * Second"

definition future_checker :: "unit Checker" where
  "future_checker ctx e =
     \<lparr>Name = [], Status = StatusHealthy, Message = ''ok'', Duration = 0,
      Metadata = Map.empty, Timestamp = year_10000\<rparr>"

definition future_manager :: "unit Manager" where
  "future_manager = AddChecker ''clock'' future_checker (NewManager ''phonic'' ''0.1.0-dev'' 0)"

definition unit_pass :: "unit Pass" where
  "unit_pass = \<lparr>observed = (\<lambda>n. ()), schedule = [], now_stamp = 3, now_uptime = 4\<rparr>"

definition refusing :: Marshal where
  "refusing h =
     Inl ''json: error calling MarshalJSON for type time.Time: Time.MarshalJSON: year outside of range [0,9999]''"

definition plain_request :: Request where
  "plain_request = \<lparr>Request_Context = Background\<rparr>"

text \<open>
  Hooks that leave an ordered side-effect log: each appends its letter to \<open>trace\<close> and
  takes a second; \<open>hook_B\<close> fails; \<open>hook_slow\<close> takes ten seconds and does not look at
  its context.
\<close>

record TraceWorld = World +
  trace :: "string list"

definition hook_A :: "unit TraceWorld_ext Hook" where
  "hook_A ctx w = (None, w\<lparr>clock := clock w + Second, trace := trace w @ [''A'']\<rparr>)"

definition hook_B :: "unit TraceWorld_ext Hook" where
  "hook_B ctx w =
     (Some ''connection already closed'', w\<lparr>clock := clock w + Second, trace := trace w @ [''B'']\<rparr>)"

definition hook_C :: "unit TraceWorld_ext Hook" where
  "hook_C ctx w = (None, w\<lparr>clock := clock w + Second, trace := trace w @ [''C'']\<rparr>)"

definition hook_slow :: "unit TraceWorld_ext Hook" where
  "hook_slow ctx w = (None, w\<lparr>clock := clock w + 10 * Second, trace := trace w @ [''slow'']\<rparr>)"

definition abc_manager :: "unit TraceWorld_ext ShutdownManager" where
  "abc_manager = AddHook hook_C (AddHook hook_B (AddHook hook_A (NewShutdownManager (30 * Second))))"

definition slow_manager :: "unit TraceWorld_ext ShutdownManager" where
  "slow_manager = AddHook hook_slow (AddHook hook_A (NewShutdownManager (5 * Second)))"

definition start_world :: TraceWorld where
  "start_world = \<lparr>clock = 0, trace = []\<rparr>"

section \<open>The specification's reading of the hook sequence\<close>

text \<open>
  For comparison with the loop of \<^verbatim>\<open>Shutdown\<close>, in the specification's words: what one
  hook leaves of the world, and the failure entries of a list of hooks run one after
  the other, each paired with its registration index; a failing hook is logged with
  its index and the rest runs all the same.
\<close>

definition hook_effect :: "Context \<Rightarrow> 'a World_scheme \<Rightarrow> 'a Hook \<Rightarrow> 'a World_scheme" where
  "hook_effect ctx w h = snd (h ctx w)"

fun failures :: "Context \<Rightarrow> 'a World_scheme \<Rightarrow> (nat \<times> 'a Hook) list \<Rightarrow> LogEntry list" where
  "failures ctx w [] = []"
| "failures ctx w ((i, h) # rest) =
     (case fst (h ctx w) of
        Some e \<Rightarrow> [Error ''Shutdown hook failed'' [zap_Error e, zap_Int ''hook_index'' (int i)]]
      | None \<Rightarrow> [])
     @ failures ctx (hook_effect ctx w h) rest"

text \<open>
  The calls of the hooks in the same reading: each hook of the list is called, with its
  registration index, at the clock reading of the world its predecessor left.
\<close>

fun started_at :: "Context \<Rightarrow> 'a World_scheme \<Rightarrow> (nat \<times> 'a Hook) list \<Rightarrow> (int \<times> Time) list" where
  "started_at ctx w [] = []"
| "started_at ctx w ((i, h) # rest) = (int i, clock w) # started_at ctx (hook_effect ctx w h) rest"

section \<open>A process that calls the shutdown manager\<close>

text \<open>
  The calls one goroutine of the embedding service makes, one after the other: a direct
  \<^verbatim>\<open>Shutdown\<close>, or \<^verbatim>\<open>Listen\<close> or \<^verbatim>\<open>WaitForShutdown\<close> with the signal that ends their wait.
  \<^verbatim>\<open>os.Exit(0)\<close> at the end of \<^verbatim>\<open>WaitForShutdown\<close> ends the process: \<open>exited\<close> holds the exit
  code from then on, and no later call runs. Calls made concurrently by several
  goroutines are outside this model.
\<close>

datatype Call = Call_Shutdown | Call_Listen string | Call_WaitForShutdown string

record 'a Process =
  current :: "'a World_scheme"
  log_output :: "LogEntry list"
  exited :: "int option"

definition process_start :: "'a World_scheme \<Rightarrow> 'a Process" where
  "process_start w = \<lparr>current = w, log_output = [], exited = None\<rparr>"

definition process_call :: "'a ShutdownManager \<Rightarrow> 'a Process \<Rightarrow> Call \<Rightarrow> 'a Process" where
  "process_call m p c =
     (case exited p of
        Some status \<Rightarrow> p
      | None \<Rightarrow>
          (case c of
             Call_Shutdown \<Rightarrow>
               (let run = Shutdown m (current p)
                in p\<lparr>current := world run, log_output := log_output p @ logged run\<rparr>)
           | Call_Listen sig \<Rightarrow>
               (let run = Listen m sig (current p)
                in p\<lparr>current := world run, log_output := log_output p @ logged run\<rparr>)
           | Call_WaitForShutdown sig \<Rightarrow>
               (case WaitForShutdown m sig (current p) of
                  (run, status) \<Rightarrow>
                    p\<lparr>current := world run, log_output := log_output p @ logged run, exited := Some status\<rparr>)))"

definition process_run :: "'a ShutdownManager \<Rightarrow> Call list \<Rightarrow> 'a World_scheme \<Rightarrow> 'a Process" where
  "process_run m cs w = foldl (process_call m) (process_start w) cs"

text \<open>
  How many calls of a list run, and whether the list ends the process: the calls up to
  and including the first \<^verbatim>\<open>WaitForShutdown\<close> run, the process exits if there is one.
\<close>

fun executed :: "Call list \<Rightarrow> nat" where
  "executed [] = 0"
| "executed (Call_WaitForShutdown sig # cs) = 1"
| "executed (c # cs) = Suc (executed cs)"

fun exits :: "Call list \<Rightarrow> bool" where
  "exits [] = False"
| "exits (Call_WaitForShutdown sig # cs) = True"
| "exits (c # cs) = exits cs"

text \<open>One full hook sequence, in the specification's reading, started on the world \<open>w\<close>.\<close>

definition hook_sequence :: "'a ShutdownManager \<Rightarrow> 'a World_scheme \<Rightarrow> 'a World_scheme" where
  "hook_sequence m w =
     foldl (hook_effect (WithTimeout Background (clock w) (timeout m))) w (rev (hooks m))"

section \<open>The pass collects one result per goroutine\<close>

lemma mset_remove_nth:
  "i < length xs \<Longrightarrow> add_mset (xs ! i) (mset (take i xs @ drop (Suc i) xs)) = mset xs"
proof -
  assume "i < length xs"
  then have "xs = take i xs @ xs ! i # drop (Suc i) xs"
    by (rule id_take_nth_drop)
  then have "mset xs = mset (take i xs @ xs ! i # drop (Suc i) xs)"
    by simp
  then show ?thesis by simp
qed

lemma next_sender_less: "0 < n \<Longrightarrow> next_sender sched n < n"
  by (simp add: next_sender_def split: list.splits)

text \<open>Whatever the scheduler does, the results are those of the goroutines, each once.\<close>

lemma mset_resultCh:
  "mset (resultCh ctx obs sched running) = mset (map (goroutine ctx obs) running)"
proof (induction ctx obs sched running rule: resultCh.induct)
  case (1 ctx obs sched running)
  show ?case
  proof (cases "running = []")
    case True
    then show ?thesis by (simp add: resultCh.simps)
  next
    case False
    define i where "i = next_sender sched (length running)"
    from False have i: "i < length running"
      unfolding i_def by (simp add: next_sender_less)
    have step: "resultCh ctx obs sched running =
        goroutine ctx obs (running ! i) # resultCh ctx obs (tl sched) (take i running @ drop (Suc i) running)"
      using False by (subst resultCh.simps) (simp add: i_def Let_def)
    have IH: "mset (resultCh ctx obs (tl sched) (take i running @ drop (Suc i) running)) =
        mset (map (goroutine ctx obs) (take i running @ drop (Suc i) running))"
      using "1.IH" [OF False i_def] .
    have "mset (map (goroutine ctx obs) running) =
        image_mset (goroutine ctx obs) (add_mset (running ! i) (mset (take i running @ drop (Suc i) running)))"
      using mset_remove_nth [OF i] by simp
    then show ?thesis
      by (simp add: step IH)
  qed
qed

lemma Name_goroutine: "Name (goroutine ctx obs p) = fst p"
  by (cases p) (simp add: goroutine_def)

lemma Checks_CheckHealth:
  "Checks (CheckHealth m ctx pass) =
     resultCh ctx (observed pass) (schedule pass) (DAList.impl_of (checkers m))"
  by (simp add: CheckHealth_def Let_def)

lemma Status_CheckHealth:
  "Status_resp (CheckHealth m ctx pass) = overallStatus (Checks (CheckHealth m ctx pass))"
  by (simp add: CheckHealth_def Let_def)

section \<open>Aggregation\<close>

lemma overallStatus_unhealthy_iff:
  "overallStatus cs = StatusUnhealthy \<longleftrightarrow> (\<exists>c \<in> set cs. Status c = StatusUnhealthy)"
  by (induction cs) (auto simp: StatusHealthy_def StatusUnhealthy_def)

lemma overallStatus_healthy_iff:
  "overallStatus cs = StatusHealthy \<longleftrightarrow> \<not> (\<exists>c \<in> set cs. Status c = StatusUnhealthy)"
  by (induction cs) (auto simp: StatusHealthy_def StatusUnhealthy_def)

lemma example_snapshot:
  "DAList.impl_of (checkers example_manager) =
     [(''moshi_stt'', MoshiChecker_Check (NewMoshiChecker ''localhost:8088'' (5 * Second))),
      (''moshi_tts'', MoshiChecker_Check (NewMoshiChecker ''localhost:8089'' (5 * Second)))]"
  by (simp add: example_manager_def AddChecker_def NewManager_def
      DAList.update.rep_eq DAList.empty.rep_eq)

lemma example_names:
  "map Name (Checks (CheckHealth example_manager Background example_pass)) = [''moshi_tts'', ''moshi_stt'']"
  by (simp add: Checks_CheckHealth example_snapshot example_pass_def resultCh.simps
      next_sender_def goroutine_def)

lemma example_statuses:
  "map Status (Checks (CheckHealth example_manager Background example_pass)) = [StatusUnhealthy, StatusHealthy]"
  by (simp add: Checks_CheckHealth example_snapshot example_pass_def resultCh.simps
      next_sender_def goroutine_def MoshiChecker_Check_def NewMoshiChecker_def example_probe_def Let_def)

text \<open>
  C1. The aggregate status of a report is unhealthy exactly when one of its checks is
  unhealthy, and healthy exactly when none is: whatever else the checks report
  (unknown, or any other string), and also when there is no check at all.
\<close>

theorem CheckHealth_aggregate_status:
  "(Status_resp (CheckHealth m ctx pass) = StatusUnhealthy \<longleftrightarrow>
      (\<exists>c \<in> set (Checks (CheckHealth m ctx pass)). Status c = StatusUnhealthy))
   \<and> (Status_resp (CheckHealth m ctx pass) = StatusHealthy \<longleftrightarrow>
      \<not> (\<exists>c \<in> set (Checks (CheckHealth m ctx pass)). Status c = StatusUnhealthy))"
  by (simp only: Status_CheckHealth overallStatus_unhealthy_iff overallStatus_healthy_iff simp_thms)

theorem CheckHealth_aggregate_status_witness:
  "Status_resp (CheckHealth example_manager Background example_pass) = StatusUnhealthy"
proof -
  have "StatusUnhealthy \<in> set (map Status (Checks (CheckHealth example_manager Background example_pass)))"
    by (simp add: example_statuses)
  then have "\<exists>c \<in> set (Checks (CheckHealth example_manager Background example_pass)). Status c = StatusUnhealthy"
    by (metis imageE list.set_map)
  then show ?thesis
    using CheckHealth_aggregate_status [of example_manager Background example_pass] by blast
qed

section \<open>Results and registered names\<close>

lemma count_map_filter:
  "count (mset (map f xs)) y = length (filter (\<lambda>x. f x = y) xs)"
  by (induction xs) auto

lemma Names_CheckHealth:
  "mset (map Name (Checks (CheckHealth m ctx pass))) = mset (map fst (DAList.impl_of (checkers m)))"
proof -
  have "mset (map Name (Checks (CheckHealth m ctx pass))) =
      image_mset Name (mset (Checks (CheckHealth m ctx pass)))"
    by simp
  also have "\<dots> = image_mset Name (mset (map (goroutine ctx (observed pass)) (DAList.impl_of (checkers m))))"
    by (simp only: Checks_CheckHealth mset_resultCh)
  also have "\<dots> = mset (map fst (DAList.impl_of (checkers m)))"
    by (simp add: image_mset.compositionality comp_def Name_goroutine)
  finally show ?thesis .
qed

lemma registered_names:
  "dom (DAList.lookup al) = set (map fst (DAList.impl_of al))"
  by (simp add: DAList.lookup.rep_eq dom_map_of_conv_image_fst)

lemma count_registered:
  "count (mset (map fst (DAList.impl_of al))) n = (if n \<in> dom (DAList.lookup al) then 1 else 0)"
proof -
  have d: "distinct (map fst (DAList.impl_of al))"
    by simp
  show ?thesis
    unfolding registered_names using d
    by (simp only: count_mset distinct_count_atmost_1 split: if_splits)
qed

text \<open>
  The scheduler of the model leaves every completion order open: each arrangement of
  the goroutines is the order of the sends under some schedule.
\<close>

lemma every_completion_order_possible:
  "mset order = mset running \<Longrightarrow>
     \<exists>sched. resultCh ctx obs sched running = map (goroutine ctx obs) order"
proof (induction order arbitrary: running)
  case Nil
  then show ?case by (simp add: resultCh.simps)
next
  case (Cons p rest)
  then have "p \<in> set running"
    by (metis list.set_intros(1) set_mset_mset)
  then obtain i where i: "i < length running" and p: "running ! i = p"
    by (auto simp: in_set_conv_nth)
  have "add_mset p (mset (take i running @ drop (Suc i) running)) = add_mset p (mset rest)"
    using mset_remove_nth [OF i] Cons.prems by (simp add: p)
  then have "mset rest = mset (take i running @ drop (Suc i) running)"
    by simp
  from Cons.IH [OF this] obtain sched where
    sched: "resultCh ctx obs sched (take i running @ drop (Suc i) running) = map (goroutine ctx obs) rest"
    by blast
  from i have ne: "running \<noteq> []" by auto
  have "next_sender (i # sched) (length running) = i"
    using i by (simp add: next_sender_def)
  then have "resultCh ctx obs (i # sched) running = map (goroutine ctx obs) (p # rest)"
    using ne by (subst resultCh.simps) (simp add: Let_def p sched)
  then show ?case by blast
qed

text \<open>
  C2. With N names registered, the report of a pass holds N results, and for every
  string the number of results bearing it as their name is one if it is a registered
  name and zero if not. This holds for every schedule, that is, for every order in
  which the checkers complete.
\<close>

theorem CheckHealth_one_result_per_name:
  "length (Checks (CheckHealth m ctx pass)) = card (dom (DAList.lookup (checkers m)))
   \<and> (\<forall>n. length (filter (\<lambda>r. Name r = n) (Checks (CheckHealth m ctx pass))) =
           (if n \<in> dom (DAList.lookup (checkers m)) then 1 else 0))"
proof
  have "length (Checks (CheckHealth m ctx pass)) = size (mset (map Name (Checks (CheckHealth m ctx pass))))"
    by simp
  also have "\<dots> = length (map fst (DAList.impl_of (checkers m)))"
    by (simp only: Names_CheckHealth size_mset)
  also have "\<dots> = card (set (map fst (DAList.impl_of (checkers m))))"
    by (rule distinct_card [symmetric]) simp
  finally show "length (Checks (CheckHealth m ctx pass)) = card (dom (DAList.lookup (checkers m)))"
    by (simp only: registered_names)
next
  show "\<forall>n. length (filter (\<lambda>r. Name r = n) (Checks (CheckHealth m ctx pass))) =
           (if n \<in> dom (DAList.lookup (checkers m)) then 1 else 0)"
  proof
    fix n
    have "length (filter (\<lambda>r. Name r = n) (Checks (CheckHealth m ctx pass))) =
        count (mset (map Name (Checks (CheckHealth m ctx pass)))) n"
      by (simp only: count_map_filter)
    then show "length (filter (\<lambda>r. Name r = n) (Checks (CheckHealth m ctx pass))) =
           (if n \<in> dom (DAList.lookup (checkers m)) then 1 else 0)"
      by (simp only: Names_CheckHealth count_registered)
  qed
qed

lemma result_of_registered:
  assumes "r \<in> set (Checks (CheckHealth m ctx pass))"
  shows "\<exists>c. DAList.lookup (checkers m) (Name r) = Some c
           \<and> r = (c ctx (observed pass (Name r)))\<lparr>Name := Name r\<rparr>"
proof -
  from assms have "r \<in># mset (Checks (CheckHealth m ctx pass))"
    by simp
  then have "r \<in> goroutine ctx (observed pass) ` set (DAList.impl_of (checkers m))"
    by (simp only: Checks_CheckHealth mset_resultCh set_mset_mset set_map)
  then obtain n c where nc: "(n, c) \<in> set (DAList.impl_of (checkers m))"
    and r: "r = goroutine ctx (observed pass) (n, c)"
    by auto
  from r have n: "Name r = n"
    by (simp add: Name_goroutine)
  from nc have "DAList.lookup (checkers m) n = Some c"
    by (simp add: DAList.lookup.rep_eq)
  with r n show ?thesis
    by (simp add: goroutine_def)
qed

lemma builtin_names:
  "Name (DatabaseChecker_Check ctx e1) = []"
  "Name (RedisChecker_Check ctx e2) = []"
  "Name (MoshiChecker_Check mc ctx e3) = []"
  "Name (CustomChecker_Check cc ctx e4) = []"
  by (simp_all add: DatabaseChecker_Check_def RedisChecker_Check_def MoshiChecker_Check_def
      CustomChecker_Check_def Let_def split: option.splits prod.splits Probe.splits)

lemma two_names:
  assumes "n1 \<noteq> n2"
  shows "mset (map Name (Checks (CheckHealth (AddChecker n2 c (AddChecker n1 c (NewManager s v t))) ctx pass)))
    = {#n1, n2#}"
  unfolding Names_CheckHealth using assms
  by (simp add: AddChecker_def NewManager_def DAList.update.rep_eq DAList.empty.rep_eq)

lemma custom_keys: "dom (DAList.lookup (checkers custom_manager)) = {''custom_check''}"
  by (simp add: registered_names custom_manager_def AddChecker_def NewManager_def
      DAList.update.rep_eq DAList.empty.rep_eq)

lemma custom_checks_nonempty: "Checks (CheckHealth custom_manager Background custom_pass) \<noteq> []"
  by (simp add: Checks_CheckHealth custom_manager_def AddChecker_def NewManager_def
      DAList.update.rep_eq DAList.empty.rep_eq resultCh.simps [of _ _ _ "[p]" for p] Let_def)

text \<open>
  C10. Every result of a pass was produced by the checker registered under the
  result's name, and differs from what that checker returned in the name only: the
  goroutine overwrites the name with the key. The four built-in variants return an empty
  name. One checker registered under two different names yields two results, bearing
  the two names.
\<close>

theorem CheckHealth_names_are_keys:
  "(\<forall>r \<in> set (Checks (CheckHealth m ctx pass)).
      \<exists>c. DAList.lookup (checkers m) (Name r) = Some c
        \<and> r = (c ctx (observed pass (Name r)))\<lparr>Name := Name r\<rparr>)
   \<and> Name (DatabaseChecker_Check ctx e1) = []
   \<and> Name (RedisChecker_Check ctx e2) = []
   \<and> Name (MoshiChecker_Check mc ctx e3) = []
   \<and> Name (CustomChecker_Check cc ctx e4) = []
   \<and> (n1 \<noteq> n2 \<longrightarrow>
        mset (map Name (Checks (CheckHealth (AddChecker n2 c' (AddChecker n1 c' (NewManager s v t))) ctx' pass')))
          = {#n1, n2#})"
  using result_of_registered [of _ m ctx pass] builtin_names two_names
  by blast

theorem CheckHealth_names_are_keys_witness:
  "Name (hd (Checks (CheckHealth custom_manager Background custom_pass))) = ''custom_check''
   \<and> mset (map Name (Checks (CheckHealth twice_manager Background example_pass)))
       = {#''moshi_first'', ''moshi_second''#}"
proof
  let ?r = "hd (Checks (CheckHealth custom_manager Background custom_pass))"
  have "?r \<in> set (Checks (CheckHealth custom_manager Background custom_pass))"
    using custom_checks_nonempty by simp
  then have "\<exists>c. DAList.lookup (checkers custom_manager) (Name ?r) = Some c"
    using CheckHealth_names_are_keys [of custom_manager Background custom_pass] by blast
  then have "Name ?r \<in> dom (DAList.lookup (checkers custom_manager))"
    by blast
  then show "Name ?r = ''custom_check''"
    by (simp only: custom_keys singleton_iff)
next
  have "''moshi_first'' \<noteq> ''moshi_second''" by simp
  then show "mset (map Name (Checks (CheckHealth twice_manager Background example_pass)))
       = {#''moshi_first'', ''moshi_second''#}"
    unfolding twice_manager_def Let_def
    using CheckHealth_names_are_keys [where ?n1.0 = "''moshi_first''" and ?n2.0 = "''moshi_second''"]
    by blast
qed

lemma example_keys: "dom (DAList.lookup (checkers example_manager)) = {''moshi_stt'', ''moshi_tts''}"
  by (simp add: registered_names example_snapshot)

theorem CheckHealth_one_result_per_name_witness:
  "length (Checks (CheckHealth example_manager Background example_pass)) = 2
   \<and> length (filter (\<lambda>r. Name r = ''moshi_stt'') (Checks (CheckHealth example_manager Background example_pass))) = 1
   \<and> length (filter (\<lambda>r. Name r = ''redis'') (Checks (CheckHealth example_manager Background example_pass))) = 0"
  using CheckHealth_one_result_per_name [of example_manager Background example_pass]
  by (simp add: example_keys)

section \<open>The remote-service checker\<close>

lemma Sprintf_d_examples:
  "Sprintf_d 200 = ''200''" "Sprintf_d 503 = ''503''" "Sprintf_d (- 15) = ''-15''" "Sprintf_d 0 = ''0''"
  by (simp_all add: Sprintf_d_def decimal.simps digit_def)

text \<open>
  C9. What \<^verbatim>\<open>MoshiChecker.Check\<close> returns is decided by how the probe ends. A response
  with a status code from 200 up to 299 gives a healthy result, a response with any
  other code an unhealthy one, and in both cases the metadata holds the status code in
  decimal and the content type of the response. A request that cannot be built and a
  failed round trip give an unhealthy result whose message names the error. Every
  unhealthy result has a message. The function is total: no probe outcome is left
  without a result.
\<close>

theorem MoshiChecker_Check_outcome:
  "(case Get e (''http://'' @ serviceURL c @ ''/health'') of
      Responded resp \<Rightarrow>
        Status (MoshiChecker_Check c ctx e) =
          (if 200 \<le> StatusCode resp \<and> StatusCode resp < 300 then StatusHealthy else StatusUnhealthy)
        \<and> Metadata (MoshiChecker_Check c ctx e) ''status_code'' = Some (Sprintf_d (StatusCode resp))
        \<and> Metadata (MoshiChecker_Check c ctx e) ''content_type'' = Some (Header_Get (Header resp) ''Content-Type'')
    | NewRequestFailed err \<Rightarrow>
        Status (MoshiChecker_Check c ctx e) = StatusUnhealthy
        \<and> Message (MoshiChecker_Check c ctx e) = ''Failed to create request: '' @ err
    | DoFailed err \<Rightarrow>
        Status (MoshiChecker_Check c ctx e) = StatusUnhealthy
        \<and> Message (MoshiChecker_Check c ctx e) = ''Moshi service unreachable: '' @ err)
   \<and> (Status (MoshiChecker_Check c ctx e) = StatusUnhealthy \<longrightarrow> Message (MoshiChecker_Check c ctx e) \<noteq> [])"
  by (simp add: MoshiChecker_Check_def Let_def StatusHealthy_def StatusUnhealthy_def
      split: Probe.splits)

theorem MoshiChecker_Check_outcome_witness:
  "Status (MoshiChecker_Check (NewMoshiChecker ''localhost:8089'' (5 * Second)) Background refused) = StatusUnhealthy
   \<and> Message (MoshiChecker_Check (NewMoshiChecker ''localhost:8089'' (5 * Second)) Background refused)
       = ''Moshi service unreachable: connection refused''"
  using MoshiChecker_Check_outcome [where e = refused and c = "NewMoshiChecker ''localhost:8089'' (5 * Second)" and ctx = Background]
  by (simp add: refused_def)

section \<open>The three handlers\<close>

text \<open>
  C6. On a fresh response writer the liveness handler sends status 200 and the body
  \<open>alive\<close>, for every manager and every request; its result does not depend on the
  manager or the request at all, and no pass of \<^verbatim>\<open>CheckHealth\<close> enters it.
\<close>

theorem LivenessHandler_always_alive:
  "code (LivenessHandler m NewResponseWriter r) = Some 200
   \<and> body (LivenessHandler m NewResponseWriter r) = ''alive''
   \<and> LivenessHandler m w r = LivenessHandler m' w r'"
  by (simp add: LivenessHandler_def Write_def WriteHeader_def NewResponseWriter_def StatusOK_def Let_def)

text \<open>
  C7. The readiness handler runs a pass of \<^verbatim>\<open>CheckHealth\<close> under a ten-second timeout.
  It sends status 200 with the body \<open>ready\<close> exactly when the aggregate status of that
  pass is healthy, and status 503 with the body \<open>not ready\<close> exactly when it is not.
  The body is one of the two tokens, never the report.
\<close>

theorem ReadinessHandler_status:
  "(code (ReadinessHandler m now pass NewResponseWriter r) = Some 200
      \<and> body (ReadinessHandler m now pass NewResponseWriter r) = ''ready''
    \<longleftrightarrow> Status_resp (CheckHealth m (WithTimeout (Request_Context r) now (10 * Second)) pass) = StatusHealthy)
   \<and> (code (ReadinessHandler m now pass NewResponseWriter r) = Some 503
      \<and> body (ReadinessHandler m now pass NewResponseWriter r) = ''not ready''
    \<longleftrightarrow> Status_resp (CheckHealth m (WithTimeout (Request_Context r) now (10 * Second)) pass) \<noteq> StatusHealthy)"
  by (simp add: ReadinessHandler_def Write_def WriteHeader_def NewResponseWriter_def
      StatusOK_def StatusServiceUnavailable_def Let_def)

lemma empty_manager_healthy:
  "Status_resp (CheckHealth (NewManager s v t) ctx pass) = StatusHealthy"
  by (simp add: CheckHealth_def Let_def NewManager_def DAList.empty.rep_eq resultCh.simps)

theorem ReadinessHandler_status_witness:
  "code (ReadinessHandler (NewManager ''phonic'' ''0.1.0-dev'' 0) 0 example_pass NewResponseWriter plain_request) = Some 200
   \<and> body (ReadinessHandler (NewManager ''phonic'' ''0.1.0-dev'' 0) 0 example_pass NewResponseWriter plain_request) = ''ready''"
  using ReadinessHandler_status [of "NewManager ''phonic'' ''0.1.0-dev'' 0" 0 example_pass plain_request]
  by (simp only: empty_manager_healthy simp_thms)

text \<open>
  The diagnostic handler. The status line is sent before the report is encoded, so the
  status the client receives is 200 for a healthy report and 503 otherwise, whatever the
  encoder does afterwards; the body is the encoded report when encoding succeeds.
\<close>

lemma HTTPHandler_code:
  "code (HTTPHandler m marshal now pass NewResponseWriter r) =
     Some (if Status_resp (CheckHealth m (WithTimeout (Request_Context r) now (30 * Second)) pass) = StatusHealthy
           then 200 else 503)"
  by (simp add: HTTPHandler_def Encode_def http_Error_def Header_Set_def Header_Del_def
      Write_def WriteHeader_def NewResponseWriter_def
      StatusOK_def StatusServiceUnavailable_def StatusInternalServerError_def Let_def
      split: sum.splits)

lemma HTTPHandler_body:
  "body (HTTPHandler m marshal now pass NewResponseWriter r) =
     (case marshal (CheckHealth m (WithTimeout (Request_Context r) now (30 * Second)) pass) of
        Inr text \<Rightarrow> text @ [CHR 0x0A]
      | Inl err \<Rightarrow> ''Internal Server Error'' @ [CHR 0x0A])"
  by (simp add: HTTPHandler_def Encode_def http_Error_def Header_Set_def Header_Del_def
      Write_def WriteHeader_def NewResponseWriter_def
      StatusOK_def StatusServiceUnavailable_def StatusInternalServerError_def Let_def
      split: sum.splits)

lemma HTTPHandler_content_type:
  "sent (HTTPHandler m marshal now pass NewResponseWriter r) ''Content-Type'' = Some ''application/json''"
  by (simp add: HTTPHandler_def Encode_def http_Error_def Header_Set_def Header_Del_def
      Write_def WriteHeader_def NewResponseWriter_def
      StatusOK_def StatusServiceUnavailable_def StatusInternalServerError_def Let_def
      split: sum.splits)

lemma future_report_healthy:
  "Status_resp (CheckHealth future_manager (WithTimeout Background 0 (30 * Second)) unit_pass) = StatusHealthy"
  by (simp add: CheckHealth_def Let_def future_manager_def AddChecker_def NewManager_def
      DAList.update.rep_eq DAList.empty.rep_eq resultCh.simps [of _ _ _ "[p]" for p] resultCh.simps [of _ _ _ "[]"]
      next_sender_def unit_pass_def goroutine_def future_checker_def StatusHealthy_def StatusUnhealthy_def)

text \<open>
  C8. The handler at a report that cannot be encoded: the report is healthy, status 200
  has been sent, and the \<^verbatim>\<open>WriteHeader(500)\<close> inside \<^verbatim>\<open>http.Error\<close> comes too late to
  count. The client receives status 200, the JSON content type and the text of the
  error as the body; it never receives status 500.
\<close>

theorem HTTPHandler_encode_failure:
  "code (HTTPHandler future_manager refusing 0 unit_pass NewResponseWriter plain_request) = Some 200
   \<and> sent (HTTPHandler future_manager refusing 0 unit_pass NewResponseWriter plain_request) ''Content-Type''
       = Some ''application/json''
   \<and> body (HTTPHandler future_manager refusing 0 unit_pass NewResponseWriter plain_request)
       = ''Internal Server Error'' @ [CHR 0x0A]"
  by (simp add: HTTPHandler_code HTTPHandler_body HTTPHandler_content_type plain_request_def
      future_report_healthy refusing_def)

section \<open>Shutdown\<close>

lemma Shutdown_loop_done: "Shutdown_loop hs ctx (- 1) run = run"
  by (subst Shutdown_loop.simps) simp

lemma Shutdown_loop_Suc:
  "Shutdown_loop hs ctx (int (Suc k) - 1) run =
     Shutdown_loop hs ctx (int k - 1)
       \<lparr>world = hook_effect ctx (world run) (hs ! k),
        logged = logged run @
          (case fst ((hs ! k) ctx (world run)) of
             Some e \<Rightarrow> [Error ''Shutdown hook failed'' [zap_Error e, zap_Int ''hook_index'' (int k)]]
           | None \<Rightarrow> []),
        started = started run @ [(int k, clock (world run))]\<rparr>"
proof -
  have i: "int (Suc k) - 1 = int k"
    by simp
  show ?thesis
    unfolding i by (subst Shutdown_loop.simps) (simp add: Let_def hook_effect_def split: prod.splits)
qed

lemma enumerate_take_Suc:
  "k < length hs \<Longrightarrow>
     rev (zip [0..<Suc k] (take (Suc k) hs)) = (k, hs ! k) # rev (zip [0..<k] (take k hs))"
  by (simp add: take_Suc_conv_app_nth)

lemma Shutdown_loop_world:
  "k \<le> length hs \<Longrightarrow>
     world (Shutdown_loop hs ctx (int k - 1) run) = foldl (hook_effect ctx) (world run) (rev (take k hs))"
proof (induction k arbitrary: run)
  case 0
  then show ?case by (simp add: Shutdown_loop_done)
next
  case (Suc k)
  then have k: "k < length hs" by simp
  then have "k \<le> length hs" by simp
  note IH = Suc.IH [OF this]
  show ?case
    by (simp only: Shutdown_loop_Suc IH) (simp add: take_Suc_conv_app_nth [OF k])
qed

lemma Shutdown_loop_logged:
  "k \<le> length hs \<Longrightarrow>
     logged (Shutdown_loop hs ctx (int k - 1) run) =
       logged run @ failures ctx (world run) (rev (zip [0..<k] (take k hs)))"
proof (induction k arbitrary: run)
  case 0
  then show ?case by (simp add: Shutdown_loop_done)
next
  case (Suc k)
  then have k: "k < length hs" by simp
  then have "k \<le> length hs" by simp
  note IH = Suc.IH [OF this]
  show ?case
    by (simp only: Shutdown_loop_Suc IH enumerate_take_Suc [OF k]) simp
qed

lemma Shutdown_loop_started:
  "k \<le> length hs \<Longrightarrow>
     map fst (started (Shutdown_loop hs ctx (int k - 1) run)) =
       map fst (started run) @ rev (map int [0..<k])"
proof (induction k arbitrary: run)
  case 0
  then show ?case by (simp add: Shutdown_loop_done)
next
  case (Suc k)
  then have "k \<le> length hs" by simp
  note IH = Suc.IH [OF this]
  show ?case
    by (simp only: Shutdown_loop_Suc IH) simp
qed

lemma world_Shutdown:
  "world (Shutdown m w) =
     foldl (hook_effect (WithTimeout Background (clock w) (timeout m))) w (rev (hooks m))"
  by (simp add: Shutdown_def Let_def Shutdown_loop_world)

lemma logged_Shutdown:
  "logged (Shutdown m w) =
     Info ''Starting graceful shutdown'' [zap_Duration ''timeout'' (timeout m)]
     # failures (WithTimeout Background (clock w) (timeout m)) w
         (rev (zip [0..<length (hooks m)] (hooks m)))
     @ [Info ''Graceful shutdown completed'' []]"
  by (simp add: Shutdown_def Let_def Shutdown_loop_logged)

lemma started_Shutdown:
  "map fst (started (Shutdown m w)) = rev (map int [0..<length (hooks m)])"
  by (simp add: Shutdown_def Let_def Shutdown_loop_started)

lemma hooks_registered:
  "hooks (foldl (\<lambda>m h. AddHook h m) m hs) = hooks m @ hs"
  by (induction hs arbitrary: m) (simp_all add: AddHook_def)

text \<open>
  C4. \<^verbatim>\<open>Shutdown\<close> calls the hooks one after the other in reverse registration order,
  each on the world the previous one left: the calls are those of the indices
  \<open>n - 1\<close> down to \<open>0\<close>, each once. Whether a hook fails has no influence on which hooks
  run; a failure adds one entry to the log, with the error and the registration index of
  the hook. Hooks registered with \<^verbatim>\<open>AddHook\<close> in the order \<open>hs\<close> are the manager's hooks in
  that order.
\<close>

theorem Shutdown_reverse_order:
  "world (Shutdown m w) =
     foldl (hook_effect (WithTimeout Background (clock w) (timeout m))) w (rev (hooks m))
   \<and> map fst (started (Shutdown m w)) = rev (map int [0..<length (hooks m)])
   \<and> logged (Shutdown m w) =
       Info ''Starting graceful shutdown'' [zap_Duration ''timeout'' (timeout m)]
       # failures (WithTimeout Background (clock w) (timeout m)) w
           (rev (zip [0..<length (hooks m)] (hooks m)))
       @ [Info ''Graceful shutdown completed'' []]
   \<and> hooks (foldl (\<lambda>m h. AddHook h m) (NewShutdownManager d) hs) = hs"
  by (simp add: world_Shutdown started_Shutdown logged_Shutdown hooks_registered NewShutdownManager_def)

lemma abc_hooks: "hooks abc_manager = [hook_A, hook_B, hook_C]"
  by (simp add: abc_manager_def AddHook_def NewShutdownManager_def)

theorem Shutdown_reverse_order_witness:
  "trace (world (Shutdown abc_manager start_world)) = [''C'', ''B'', ''A'']
   \<and> logged (Shutdown abc_manager start_world) =
       [Info ''Starting graceful shutdown'' [zap_Duration ''timeout'' (30 * Second)],
        Error ''Shutdown hook failed'' [zap_Error ''connection already closed'', zap_Int ''hook_index'' 1],
        Info ''Graceful shutdown completed'' []]"
  using Shutdown_reverse_order [of abc_manager start_world 0 "[]"]
  by (simp add: abc_hooks hook_effect_def hook_A_def hook_B_def hook_C_def start_world_def
      abc_manager_def AddHook_def NewShutdownManager_def upt_rec [of 0] upt_rec [of 1] upt_rec [of 2])

lemma Shutdown_loop_started_at:
  "k \<le> length hs \<Longrightarrow>
     started (Shutdown_loop hs ctx (int k - 1) run) =
       started run @ started_at ctx (world run) (rev (zip [0..<k] (take k hs)))"
proof (induction k arbitrary: run)
  case 0
  then show ?case by (simp add: Shutdown_loop_done)
next
  case (Suc k)
  then have k: "k < length hs" by simp
  then have "k \<le> length hs" by simp
  note IH = Suc.IH [OF this]
  show ?case
    by (simp only: Shutdown_loop_Suc IH enumerate_take_Suc [OF k]) simp
qed

lemma started_at_Shutdown:
  "started (Shutdown m w) =
     started_at (WithTimeout Background (clock w) (timeout m)) w
       (rev (zip [0..<length (hooks m)] (hooks m)))"
  by (simp add: Shutdown_def Let_def Shutdown_loop_started_at)

lemma deadline_Shutdown:
  "deadline (WithTimeout Background (clock w) (timeout m)) = Some (clock w + timeout m)"
  by (simp add: WithTimeout_def Background_def)

lemma slow_hooks: "hooks slow_manager = [hook_A, hook_slow]"
  by (simp add: slow_manager_def AddHook_def NewShutdownManager_def)

text \<open>
  C5, as amended. \<^verbatim>\<open>Shutdown\<close> returns after the last hook has run. It derives one
  deadline, the time of the call plus the timeout, and hands it to every hook in the
  shared context; the loop itself never looks at it. Every registered hook is called,
  once, with that context, on the world its predecessor left and at whatever the clock
  reads then, before or after the deadline.
\<close>

theorem Shutdown_starts_every_hook:
  "world (Shutdown m w) =
     foldl (hook_effect (WithTimeout Background (clock w) (timeout m))) w (rev (hooks m))
   \<and> started (Shutdown m w) =
       started_at (WithTimeout Background (clock w) (timeout m)) w
         (rev (zip [0..<length (hooks m)] (hooks m)))
   \<and> length (started (Shutdown m w)) = length (hooks m)
   \<and> deadline (WithTimeout Background (clock w) (timeout m)) = Some (clock w + timeout m)"
proof -
  have "length (started (Shutdown m w)) = length (map fst (started (Shutdown m w)))"
    by simp
  then have "length (started (Shutdown m w)) = length (hooks m)"
    by (simp only: started_Shutdown length_rev length_map length_upt diff_zero)
  then show ?thesis
    by (simp only: world_Shutdown started_at_Shutdown [symmetric] deadline_Shutdown simp_thms)
qed

theorem Shutdown_starts_every_hook_witness:
  "deadline (WithTimeout Background (clock start_world) (timeout slow_manager)) = Some 5000000000
   \<and> world (Shutdown slow_manager start_world) = \<lparr>clock = 11000000000, trace = [''slow'', ''A'']\<rparr>
   \<and> started (Shutdown slow_manager start_world) = [(1, 0), (0, 10000000000)]"
  using Shutdown_starts_every_hook [of slow_manager start_world]
  by (simp add: slow_hooks hook_effect_def hook_A_def hook_slow_def start_world_def Second_def
      slow_manager_def AddHook_def NewShutdownManager_def upt_rec [of 0] upt_rec [of 1])

text \<open>
  C5 as stated fails: with a timeout of five seconds and a first hook that takes ten,
  the deadline is at five seconds and the remaining hook is started at ten.
\<close>

theorem Shutdown_deadline_counterexample:
  "deadline (WithTimeout Background (clock start_world) (timeout slow_manager)) = Some 5000000000
   \<and> started (Shutdown slow_manager start_world) = [(1, 0), (0, 10000000000)]
   \<and> trace (world (Shutdown slow_manager start_world)) = [''slow'', ''A'']"
  by (simp add: Shutdown_def Let_def slow_hooks Shutdown_loop.simps hook_A_def hook_slow_def
      start_world_def Second_def WithTimeout_def Background_def slow_manager_def AddHook_def
      NewShutdownManager_def)

text \<open>
  C3 as stated fails: after \<^verbatim>\<open>Listen\<close> has run the hooks on a signal, a direct call of
  \<^verbatim>\<open>Shutdown\<close> runs all of them again.
\<close>

theorem Shutdown_latch_counterexample:
  "trace (world (Listen abc_manager ''interrupt'' start_world)) = [''C'', ''B'', ''A'']
   \<and> trace (world (Shutdown abc_manager (world (Listen abc_manager ''interrupt'' start_world))))
       = [''C'', ''B'', ''A'', ''C'', ''B'', ''A'']"
  by (simp add: Listen_def Shutdown_def Let_def abc_hooks Shutdown_loop.simps hook_A_def hook_B_def
      hook_C_def start_world_def)

lemma world_Listen: "world (Listen m sig w) = hook_sequence m w"
  by (simp add: Listen_def Let_def world_Shutdown hook_sequence_def)

lemma world_WaitForShutdown:
  "world (fst (WaitForShutdown m sig w)) = hook_sequence m w" "snd (WaitForShutdown m sig w) = 0"
  by (simp_all add: WaitForShutdown_def Let_def world_Shutdown hook_sequence_def)

lemma process_call_exited:
  "exited p = Some status \<Longrightarrow> foldl (process_call m) p cs = p"
  by (induction cs) (simp_all add: process_call_def)

lemma process_calls:
  "exited p = None \<Longrightarrow>
     current (foldl (process_call m) p cs) = (hook_sequence m ^^ executed cs) (current p)
     \<and> exited (foldl (process_call m) p cs) = (if exits cs then Some 0 else None)"
proof (induction cs arbitrary: p)
  case Nil
  then show ?case by simp
next
  case (Cons c cs)
  show ?case
  proof (cases c)
    case Call_Shutdown
    let ?p = "process_call m p Call_Shutdown"
    have e: "exited ?p = None" and w: "current ?p = hook_sequence m (current p)"
      using Cons.prems Call_Shutdown
      by (simp_all add: process_call_def Let_def world_Shutdown hook_sequence_def)
    from Cons.IH [OF e] show ?thesis
      by (simp add: w Call_Shutdown funpow_swap1)
  next
    case (Call_Listen sig)
    let ?p = "process_call m p (Call_Listen sig)"
    have e: "exited ?p = None" and w: "current ?p = hook_sequence m (current p)"
      using Cons.prems Call_Listen
      by (simp_all add: process_call_def Let_def world_Listen)
    from Cons.IH [OF e] show ?thesis
      by (simp add: w Call_Listen funpow_swap1)
  next
    case (Call_WaitForShutdown sig)
    let ?p = "process_call m p (Call_WaitForShutdown sig)"
    have e: "exited ?p = Some 0" and w: "current ?p = hook_sequence m (current p)"
      using Cons.prems Call_WaitForShutdown world_WaitForShutdown [of m sig "current p"]
      by (simp_all add: process_call_def case_prod_beta)
    have "foldl (process_call m) ?p cs = ?p"
      using e by (rule process_call_exited)
    then show ?thesis
      by (simp add: e w Call_WaitForShutdown)
  qed
qed

text \<open>
  C3, as amended. The manager has no latch and keeps no record of a run. Each call the
  process makes, a direct \<^verbatim>\<open>Shutdown\<close> or a \<^verbatim>\<open>Listen\<close> or \<^verbatim>\<open>WaitForShutdown\<close> whose signal has
  arrived, executes the whole hook sequence in reverse registration order, on the world
  the call before left: a call that follows an earlier run is not a no-op but executes
  every hook again. \<^verbatim>\<open>WaitForShutdown\<close> then ends the process with exit code 0, so the
  calls that run are those up to and including the first \<^verbatim>\<open>WaitForShutdown\<close>, and
  nothing runs after it.
\<close>

theorem Shutdown_runs_on_every_call:
  "current (process_run m cs w) =
     ((\<lambda>w. foldl (hook_effect (WithTimeout Background (clock w) (timeout m))) w (rev (hooks m)))
        ^^ executed cs) w
   \<and> exited (process_run m cs w) = (if exits cs then Some 0 else None)
   \<and> world (Shutdown m w) =
       foldl (hook_effect (WithTimeout Background (clock w) (timeout m))) w (rev (hooks m))
   \<and> world (Listen m sig w) = world (Shutdown m w)
   \<and> WaitForShutdown m sig w = (Listen m sig w, 0)"
proof -
  have h: "hook_sequence m =
      (\<lambda>w. foldl (hook_effect (WithTimeout Background (clock w) (timeout m))) w (rev (hooks m)))"
    by (rule ext) (simp add: hook_sequence_def)
  have "exited (process_start w) = None" and "current (process_start w) = w"
    by (simp_all add: process_start_def)
  with process_calls [of "process_start w" m cs]
  have "current (process_run m cs w) = (hook_sequence m ^^ executed cs) w
     \<and> exited (process_run m cs w) = (if exits cs then Some 0 else None)"
    by (simp add: process_run_def)
  then show ?thesis
    unfolding h by (simp add: world_Shutdown Listen_def WaitForShutdown_def Let_def)
qed

theorem Shutdown_runs_on_every_call_witness:
  "trace (current (process_run abc_manager [Call_Listen ''interrupt'', Call_Shutdown] start_world))
     = [''C'', ''B'', ''A'', ''C'', ''B'', ''A'']
   \<and> exited (process_run abc_manager [Call_Listen ''interrupt'', Call_Shutdown] start_world) = None
   \<and> trace (current (process_run abc_manager [Call_WaitForShutdown ''terminated'', Call_Shutdown] start_world))
     = [''C'', ''B'', ''A'']
   \<and> exited (process_run abc_manager [Call_WaitForShutdown ''terminated'', Call_Shutdown] start_world) = Some 0"
  using Shutdown_runs_on_every_call [of abc_manager "[Call_Listen ''interrupt'', Call_Shutdown]" start_world]
    Shutdown_runs_on_every_call [of abc_manager "[Call_WaitForShutdown ''terminated'', Call_Shutdown]" start_world]
  by (simp add: abc_hooks hook_effect_def hook_A_def hook_B_def hook_C_def start_world_def)

end
